theory Spec2Isabelle
  imports Main
begin

section \<open>Shared value types (pkg/types)\<close>

text \<open>
  Go's \<open>time.Time\<close> and \<open>time.Duration\<close> are read as integers (nanoseconds); the zero
  value of either is \<open>0\<close>. A \<open>time.Duration\<close> is an int64, so arithmetic on durations
  wraps around (see \<open>wrap64\<close> below).
\<close>

type_synonym Time = int
type_synonym Duration = int

record Target =
  Host :: string
  Ports :: "int list"
  URL :: string
  Scheme :: string

type_synonym Severity = string

definition SeverityCritical :: Severity where "SeverityCritical = ''CRITICAL''"
definition SeverityHigh :: Severity where "SeverityHigh = ''HIGH''"
definition SeverityMedium :: Severity where "SeverityMedium = ''MEDIUM''"
definition SeverityLow :: Severity where "SeverityLow = ''LOW''"
definition SeverityInfo :: Severity where "SeverityInfo = ''INFO''"

text \<open>\<open>SeverityRank\<close>: the switch of pkg/types/result.go, case by case, with its default.\<close>

definition SeverityRank :: "Severity \<Rightarrow> int" where
  "SeverityRank s =
     (if s = SeverityCritical then 0
      else if s = SeverityHigh then 1
      else if s = SeverityMedium then 2
      else if s = SeverityLow then 3
      else if s = SeverityInfo then 4
      else 5)"

record Finding =
  Title :: string
  Description :: string
  Severity :: Severity
  Evidence :: string
  Remediation :: string
  Metadata :: "string \<rightharpoonup> string"

record ScanResult =
  ScannerName :: string
  Target :: Target
  StartedAt :: Time
  CompletedAt :: Time
  Findings :: "Finding list"
  Error :: string

section \<open>Errors\<close>

text \<open>
  The Go \<open>error\<close> values that occur in the engine. Every error the registry, the runner and
  the job manager build themselves comes from \<open>fmt.Errorf\<close> with a format that has no
  \<open>%w\<close> verb: such a value is a plain \<open>*errors.errorString\<close>, which carries its message and
  nothing else (constructor \<open>Errorf\<close>). The two sentinels are what \<open>ctx.Err()\<close> returns.
  An error that a scanner returns is used by the engine through \<open>err.Error()\<close> only, so it
  is kept as an \<open>Errorf\<close> of its message too.
\<close>

datatype error = Errorf string | Canceled | DeadlineExceeded

fun Error_of :: "error \<Rightarrow> string" where
  "Error_of (Errorf msg) = msg"
| "Error_of Canceled = ''context canceled''"
| "Error_of DeadlineExceeded = ''context deadline exceeded''"

text \<open>
  The \<open>%q\<close> verb of \<open>fmt\<close> on a string is \<open>strconv.AppendQuote\<close>. It puts the text
  between double quotes and goes through it rune by rune:
  \<^item> a byte below 0x80 is a rune by itself; from 0x80 on, \<open>utf8.DecodeRuneInString\<close> reads
    a rune of two to four bytes, and a byte that does not start a well-formed sequence is
    written \<open>\xNN\<close>;
  \<^item> a double quote and a backslash get a backslash in front;
  \<^item> a rune that \<open>strconv.IsPrint\<close> accepts is copied;
  \<^item> the seven control characters with a name are written \<open>\a \b \f \n \r \t \v\<close>;
  \<^item> any other rune is written \<open>\xNN\<close> below 0x20 and at 0x7f, \<open>\uNNNN\<close> below 0x10000,
    and \<open>\UNNNNNNNN\<close> from there on.
\<close>

definition dquote :: char where "dquote = CHR 0x22"
definition backslash :: char where "backslash = CHR 0x5C"

definition hexdigit :: "nat \<Rightarrow> char" where
  "hexdigit n = ''0123456789abcdef'' ! n"

text \<open>The two, four and eight lowest hexadecimal digits of \<open>n\<close>, the highest first.\<close>

definition hex2 :: "nat \<Rightarrow> string" where
  "hex2 n = [hexdigit (n div 16 mod 16), hexdigit (n mod 16)]"

definition hex4 :: "nat \<Rightarrow> string" where
  "hex4 n = [hexdigit (n div 4096 mod 16), hexdigit (n div 256 mod 16)] @ hex2 n"

definition hex8 :: "nat \<Rightarrow> string" where
  "hex8 n =
     [hexdigit (n div 268435456 mod 16), hexdigit (n div 16777216 mod 16),
      hexdigit (n div 1048576 mod 16), hexdigit (n div 65536 mod 16)] @ hex4 n"

text \<open>
  \<open>utf8.DecodeRuneInString\<close> at a first byte \<open>b0\<close> from 0x80 on, followed by \<open>rest\<close>: the
  rune and the number of bytes of \<open>rest\<close> that belong to it, or \<open>None\<close> where Go returns
  \<open>(RuneError, 1)\<close>. The second byte has the range that the first byte asks for (no
  overlong forms, no surrogates, nothing above U+10FFFF); the later ones are 0x80 to 0xBF.
\<close>

definition between :: "char \<Rightarrow> nat \<Rightarrow> nat \<Rightarrow> bool" where
  "between b lo hi \<longleftrightarrow> lo \<le> of_char b \<and> of_char b \<le> hi"

definition low6 :: "char \<Rightarrow> nat" where
  "low6 b = of_char b mod 64"

definition decode_rune :: "nat \<Rightarrow> string \<Rightarrow> (nat \<times> nat) option" where
  "decode_rune b0 rest =
     (if 0xC2 \<le> b0 \<and> b0 \<le> 0xDF then
        (case rest of
           b1 # _ \<Rightarrow>
             if between b1 0x80 0xBF then Some ((b0 mod 32) * 64 + low6 b1, 1) else None
         | _ \<Rightarrow> None)
      else if 0xE0 \<le> b0 \<and> b0 \<le> 0xEF then
        (case rest of
           b1 # b2 # _ \<Rightarrow>
             if between b1 (if b0 = 0xE0 then 0xA0 else 0x80) (if b0 = 0xED then 0x9F else 0xBF)
                \<and> between b2 0x80 0xBF
             then Some ((b0 mod 16) * 4096 + low6 b1 * 64 + low6 b2, 2)
             else None
         | _ \<Rightarrow> None)
      else if 0xF0 \<le> b0 \<and> b0 \<le> 0xF4 then
        (case rest of
           b1 # b2 # b3 # _ \<Rightarrow>
             if between b1 (if b0 = 0xF0 then 0x90 else 0x80) (if b0 = 0xF4 then 0x8F else 0xBF)
                \<and> between b2 0x80 0xBF \<and> between b3 0x80 0xBF
             then Some ((b0 mod 8) * 262144 + low6 b1 * 4096 + low6 b2 * 64 + low6 b3, 3)
             else None
         | _ \<Rightarrow> None)
      else None)"

text \<open>
  \<open>strconv.IsPrint\<close>. Up to U+00FF it is two ranges, written in the Go library as below.
  Above U+00FF it is a lookup in the library's Unicode tables, which are not part of this
  repository: \<open>IsPrint_table\<close> stands for them, and nothing is known or used about its
  values.
\<close>

definition IsPrint_table :: "nat \<Rightarrow> bool" where
  "IsPrint_table = undefined"

definition IsPrint :: "nat \<Rightarrow> bool" where
  "IsPrint r =
     (if r \<le> 0xFF
      then (0x20 \<le> r \<and> r \<le> 0x7E) \<or> (0xA1 \<le> r \<and> r \<noteq> 0xAD)
      else IsPrint_table r)"

text \<open>\<open>appendEscapedRune\<close>: the rune \<open>r\<close>, which the text holds as \<open>bytes\<close>.\<close>

definition escaped :: "nat \<Rightarrow> string \<Rightarrow> string" where
  "escaped r bytes =
     (if r = 0x22 \<or> r = 0x5C then backslash # bytes
      else if IsPrint r then bytes
      else if r = 0x07 then [backslash, CHR ''a'']
      else if r = 0x08 then [backslash, CHR ''b'']
      else if r = 0x0C then [backslash, CHR ''f'']
      else if r = 0x0A then [backslash, CHR ''n'']
      else if r = 0x0D then [backslash, CHR ''r'']
      else if r = 0x09 then [backslash, CHR ''t'']
      else if r = 0x0B then [backslash, CHR ''v'']
      else if r < 0x20 \<or> r = 0x7F then [backslash, CHR ''x''] @ hex2 r
      else if r < 0x10000 then [backslash, CHR ''u''] @ hex4 r
      else [backslash, CHR ''U''] @ hex8 r)"

fun quote_body :: "string \<Rightarrow> string" where
  "quote_body [] = []"
| "quote_body (b # rest) =
     (if of_char b < (0x80::nat) then escaped (of_char b) [b] @ quote_body rest
      else case decode_rune (of_char b) rest of
             None \<Rightarrow> [backslash, CHR ''x''] @ hex2 (of_char b) @ quote_body rest
           | Some (r, n) \<Rightarrow> escaped r (b # take n rest) @ quote_body (drop n rest))"

definition quote :: "string \<Rightarrow> string" where
  "quote s = [dquote] @ quote_body s @ [dquote]"

text \<open>A character that \<open>%q\<close> copies unchanged: printable ASCII but \<open>"\<close> and \<open>\\<close>.\<close>

definition plain_char :: "char \<Rightarrow> bool" where
  "plain_char c \<longleftrightarrow>
     (0x20::nat) \<le> of_char c \<and> of_char c \<le> (0x7E::nat) \<and>
     of_char c \<noteq> (0x22::nat) \<and> of_char c \<noteq> (0x5C::nat)"

section \<open>Scanner capability and options (internal/scanner)\<close>

text \<open>
  \<open>context.Context\<close>, as far as the engine looks at it: the deadline it was given (the
  duration passed to \<open>context.WithTimeout\<close>, if any) and what \<open>ctx.Err()\<close> returns;
  \<open>ctx.Done()\<close> is ready exactly when \<open>ctx.Err()\<close> is not nil.
\<close>

record Context =
  deadline :: "Duration option"
  err :: "error option"

definition Background :: Context where
  "Background = \<lparr>deadline = None, err = None\<rparr>"

text \<open>
  \<open>context.WithTimeout parent d\<close>: the child keeps an error of the parent, is expired at
  once when \<open>d\<close> is not positive, and has the deadline \<open>d\<close> unless the parent's is earlier.
\<close>

definition WithTimeout :: "Context \<Rightarrow> Duration \<Rightarrow> Context" where
  "WithTimeout parent d =
     \<lparr>deadline = (case deadline parent of
                     None \<Rightarrow> Some d
                   | Some p \<Rightarrow> Some (min p d)),
      err = (case err parent of
               Some e \<Rightarrow> Some e
             | None \<Rightarrow> if d \<le> 0 then Some DeadlineExceeded else None)\<rparr>"

typedecl any

record Options =
  Concurrency :: int
  Timeout :: Duration
  Verbose :: bool
  ExtraArgs :: "string \<rightharpoonup> any"

text \<open>
  What a call of \<open>Scanner.Run\<close> does: it returns the pair \<open>(*ScanResult, error)\<close>, either
  of which may be nil, or it panics with a value (kept as its \<open>%v\<close> rendering).
\<close>

datatype run_outcome =
  Returns "ScanResult option" "error option"
| Panics string

text \<open>
  The \<open>Scanner\<close> interface. \<open>Run\<close> is an arbitrary function of its three arguments: the
  network traffic of a concrete probe is outside the engine.
\<close>

record Scanner =
  Name :: string
  Scanner_Description :: string
  Run :: "Context \<Rightarrow> Target \<Rightarrow> Options \<Rightarrow> run_outcome"

section \<open>Registry (internal/scanner/registry.go)\<close>

text \<open>
  The Go map \<open>map[string]Scanner\<close> is an association list whose keys are kept distinct by
  \<open>map_assign\<close>, Go's \<open>m[k] = v\<close>. Go ranges over a map in an unspecified order; the order
  of the list stands for that order.
\<close>

fun map_assign :: "'k \<Rightarrow> 'v \<Rightarrow> ('k \<times> 'v) list \<Rightarrow> ('k \<times> 'v) list" where
  "map_assign k v [] = [(k, v)]"
| "map_assign k v ((k', v') # ps) =
     (if k' = k then (k, v) # ps else (k', v') # map_assign k v ps)"

record Registry =
  scanners :: "(string \<times> Scanner) list"

definition NewRegistry :: Registry where
  "NewRegistry = \<lparr>scanners = []\<rparr>"

definition Register :: "Scanner \<Rightarrow> Registry \<Rightarrow> Registry" where
  "Register s r = r\<lparr>scanners := map_assign (Name s) s (scanners r)\<rparr>"

definition Registry_Get :: "Registry \<Rightarrow> string \<Rightarrow> error + Scanner" where
  "Registry_Get r name =
     (case map_of (scanners r) name of
        None \<Rightarrow> Inl (Errorf (''scanner '' @ quote name @ '' not found''))
      | Some s \<Rightarrow> Inr s)"

definition Registry_All :: "Registry \<Rightarrow> Scanner list" where
  "Registry_All r = map snd (scanners r)"

text \<open>A registry as a program builds it: \<open>NewRegistry\<close>, then \<open>Register\<close> calls in order.\<close>

definition registry_of :: "Scanner list \<Rightarrow> Registry" where
  "registry_of ss = foldl (\<lambda>r s. Register s r) NewRegistry ss"


text \<open>Every entry sits under its scanner's name, and no name occurs twice.\<close>

definition keyed_by_name :: "(string \<times> Scanner) list \<Rightarrow> bool" where
  "keyed_by_name ps \<longleftrightarrow> distinct (map fst ps) \<and> (\<forall>(k, s) \<in> set ps. Name s = k)"

section \<open>Runner.RunOne (internal/scanner/runner.go)\<close>

record Runner =
  registry :: Registry

definition NewRunner :: "Registry \<Rightarrow> Runner" where
  "NewRunner reg = \<lparr>registry = reg\<rparr>"

text \<open>
  \<open>RunOne\<close>: a failed lookup returns \<open>(nil, err)\<close>; otherwise the call is the scanner's
  \<open>Run\<close>, whatever that does.
\<close>

definition RunOne :: "Runner \<Rightarrow> Context \<Rightarrow> string \<Rightarrow> Target \<Rightarrow> Options \<Rightarrow> run_outcome" where
  "RunOne r ctx name target opts =
     (case Registry_Get (registry r) name of
        Inl e \<Rightarrow> Returns None (Some e)
      | Inr s \<Rightarrow> Run s ctx target opts)"

section \<open>Runner.RunAll (internal/scanner/runner.go)\<close>

text \<open>
  \<open>RunAll\<close> starts one goroutine per registered name, so it is modelled as a transition
  system: a state of the call, and one function that performs one atomic action of one
  goroutine. A run of \<open>RunAll\<close> is any sequence of actions that the state allows, which
  covers every interleaving.

  A goroutine started for a scanner is in one of these places:
  \<^item> \<open>AtSelect\<close>: blocked in the \<open>select\<close>, with neither case taken yet;
  \<^item> \<open>InRun\<close>: it has sent on \<open>sem\<close> (it holds a slot) and \<open>scanner.Run\<close> is in flight;
  \<^item> \<open>WantLock entry held\<close>: about to call \<open>mu.Lock()\<close>; \<open>entry\<close> is what it will
    append (nothing for a nil result with a nil error), \<open>held\<close> tells whether it holds a
    slot (it does not on the \<open>ctx.Done()\<close> branch);
  \<^item> \<open>Locked snap entry held\<close>: it holds \<open>mu\<close> and has read \<open>results\<close> (\<open>snap\<close>) for its
    \<open>append\<close>;
  \<^item> \<open>Finished\<close>: it has stored the appended slice, unlocked, given its slot back (the
    deferred receive from \<open>sem\<close>) and called \<open>wg.Done()\<close>.
\<close>

datatype phase =
  AtSelect
| InRun
| WantLock "ScanResult option" bool
| Locked "ScanResult list" "ScanResult option" bool
| Finished

fun holds_slot :: "phase \<Rightarrow> bool" where
  "holds_slot InRun = True"
| "holds_slot (WantLock entry held) = held"
| "holds_slot (Locked snap entry held) = held"
| "holds_slot AtSelect = False"
| "holds_slot Finished = False"

text \<open>
  The calling goroutine is in the \<open>for\<close> loop (and, once the names are used up, in
  \<open>wg.Wait()\<close>), or in the middle of the \<open>append\<close> of the lookup-failure branch, which is
  not under \<open>mu\<close>: it has read \<open>results\<close> (\<open>snap\<close>) and has yet to store the longer slice.
  In the end it has returned a slice, or the process has died of a scanner's panic, which
  \<open>RunAll\<close> does not recover.
\<close>

datatype main_phase =
  Loop
| Appending "ScanResult list" ScanResult
| Returned "ScanResult list"
| Crashed string

record RunAll_state =
  names_left :: "string list"
  main :: main_phase
  tasks :: "(Scanner \<times> phase) list"
  sem :: nat
  mu :: bool
  results :: "ScanResult list"
  caller_ctx :: Context

definition RunAll_init :: "Context \<Rightarrow> string list \<Rightarrow> RunAll_state" where
  "RunAll_init c names =
     \<lparr>names_left = names, main = Loop, tasks = [], sem = 0, mu = False, results = [],
      caller_ctx = c\<rparr>"

text \<open>The capacity of \<open>sem\<close>: \<open>opts.Concurrency\<close>, or 1 when that is below 1.\<close>

definition limit :: "Options \<Rightarrow> nat" where
  "limit opts = (if Concurrency opts < 1 then 1 else nat (Concurrency opts))"

text \<open>The \<open>ScanResult\<close> literals of \<open>RunAll\<close>: a name, the target and an error text.\<close>

definition failure :: "string \<Rightarrow> Target \<Rightarrow> string \<Rightarrow> ScanResult" where
  "failure name target msg =
     \<lparr>ScannerName = name, Target = target, StartedAt = 0, CompletedAt = 0, Findings = [],
      Error = msg\<rparr>"

text \<open>What a goroutine appends after \<open>Run\<close> returned \<open>(result, err)\<close>.\<close>

definition task_entry :: "Scanner \<Rightarrow> Target \<Rightarrow> ScanResult option \<Rightarrow> error option \<Rightarrow> ScanResult option" where
  "task_entry sc target result e =
     (case e of
        Some er \<Rightarrow> Some (failure (Name sc) target (Error_of er))
      | None \<Rightarrow> result)"

datatype action =
  MainStep
| Acquire nat
| ObserveDone nat
| RunReturns nat
| LockMu nat
| UnlockMu nat
| Cancel error

text \<open>
  One step of the calling goroutine: the next round of the loop (a failed lookup reads
  \<open>results\<close> for the append, a successful one starts a goroutine), the store that ends an
  append, or the return once \<open>wg.Wait()\<close> lets it through.
\<close>

definition main_step :: "Registry \<Rightarrow> Target \<Rightarrow> RunAll_state \<Rightarrow> RunAll_state option" where
  "main_step reg target s =
     (case main s of
        Loop \<Rightarrow>
          (case names_left s of
             [] \<Rightarrow>
               if list_all (\<lambda>t. snd t = Finished) (tasks s)
               then Some (s\<lparr>main := Returned (results s)\<rparr>)
               else None
           | name # rest \<Rightarrow>
               (case Registry_Get reg name of
                  Inl e \<Rightarrow>
                    Some (s\<lparr>names_left := rest,
                            main := Appending (results s) (failure name target (Error_of e))\<rparr>)
                | Inr sc \<Rightarrow>
                    Some (s\<lparr>names_left := rest, tasks := tasks s @ [(sc, AtSelect)]\<rparr>)))
      | Appending snap x \<Rightarrow> Some (s\<lparr>results := snap @ [x], main := Loop\<rparr>)
      | Returned rs \<Rightarrow> None
      | Crashed v \<Rightarrow> None)"

text \<open>
  One step of goroutine \<open>i\<close>, which runs the scanner \<open>sc\<close>, by the action and the place
  it is in. \<open>None\<close> means the action is not possible in this state (the goroutine is
  elsewhere, or it would block).
\<close>

definition task_move :: "Target \<Rightarrow> Options \<Rightarrow> RunAll_state \<Rightarrow> nat \<Rightarrow> Scanner \<Rightarrow> action \<Rightarrow> phase \<Rightarrow> RunAll_state option" where
  "task_move target opts s i sc a p =
     (case a of
        Acquire j \<Rightarrow>
          (case p of
             AtSelect \<Rightarrow>
               if sem s < limit opts
               then Some (s\<lparr>tasks := (tasks s)[i := (sc, InRun)], sem := sem s + 1\<rparr>)
               else None
           | _ \<Rightarrow> None)
      | ObserveDone j \<Rightarrow>
          (case p of
             AtSelect \<Rightarrow>
               (case err (caller_ctx s) of
                  None \<Rightarrow> None
                | Some e \<Rightarrow>
                    Some (s\<lparr>tasks := (tasks s)
                      [i := (sc, WantLock (Some (failure (Name sc) target (Error_of e))) False)]\<rparr>))
           | _ \<Rightarrow> None)
      | RunReturns j \<Rightarrow>
          (case p of
             InRun \<Rightarrow>
               (case Run sc (caller_ctx s) target opts of
                  Panics v \<Rightarrow> Some (s\<lparr>main := Crashed v\<rparr>)
                | Returns result e \<Rightarrow>
                    Some (s\<lparr>tasks := (tasks s)
                      [i := (sc, WantLock (task_entry sc target result e) True)]\<rparr>))
           | _ \<Rightarrow> None)
      | LockMu j \<Rightarrow>
          (case p of
             WantLock entry held \<Rightarrow>
               if mu s then None
               else Some (s\<lparr>tasks := (tasks s)[i := (sc, Locked (results s) entry held)],
                            mu := True\<rparr>)
           | _ \<Rightarrow> None)
      | UnlockMu j \<Rightarrow>
          (case p of
             Locked snap entry held \<Rightarrow>
               Some (s\<lparr>tasks := (tasks s)[i := (sc, Finished)],
                       results := (case entry of None \<Rightarrow> results s | Some x \<Rightarrow> snap @ [x]),
                       mu := False,
                       sem := (if held then sem s - 1 else sem s)\<rparr>)
           | _ \<Rightarrow> None)
      | _ \<Rightarrow> None)"

definition task_step :: "Target \<Rightarrow> Options \<Rightarrow> action \<Rightarrow> nat \<Rightarrow> RunAll_state \<Rightarrow> RunAll_state option" where
  "task_step target opts a i s =
     (if i < length (tasks s)
      then task_move target opts s i (fst (tasks s ! i)) a (snd (tasks s ! i))
      else None)"

text \<open>
  One action on the call. Nothing moves once \<open>RunAll\<close> has returned or the process has
  died. \<open>Cancel\<close> is the caller's context being cancelled or running out of time.
\<close>

fun live :: "main_phase \<Rightarrow> bool" where
  "live Loop = True"
| "live (Appending snap x) = True"
| "live (Returned rs) = False"
| "live (Crashed v) = False"

definition RunAll_step :: "Runner \<Rightarrow> Target \<Rightarrow> Options \<Rightarrow> action \<Rightarrow> RunAll_state \<Rightarrow> RunAll_state option" where
  "RunAll_step r target opts a s =
     (if \<not> live (main s) then None
      else case a of
        MainStep \<Rightarrow> main_step (registry r) target s
      | Cancel e \<Rightarrow>
          (if err (caller_ctx s) = None
           then Some (s\<lparr>caller_ctx := (caller_ctx s)\<lparr>err := Some e\<rparr>\<rparr>)
           else None)
      | Acquire i \<Rightarrow> task_step target opts a i s
      | ObserveDone i \<Rightarrow> task_step target opts a i s
      | RunReturns i \<Rightarrow> task_step target opts a i s
      | LockMu i \<Rightarrow> task_step target opts a i s
      | UnlockMu i \<Rightarrow> task_step target opts a i s)"

text \<open>A schedule is a list of actions; it runs as far as every action is possible.\<close>

fun RunAll_exec :: "Runner \<Rightarrow> Target \<Rightarrow> Options \<Rightarrow> action list \<Rightarrow> RunAll_state \<Rightarrow> RunAll_state option" where
  "RunAll_exec r target opts [] s = Some s"
| "RunAll_exec r target opts (a # as) s =
     (case RunAll_step r target opts a s of
        None \<Rightarrow> None
      | Some s' \<Rightarrow> RunAll_exec r target opts as s')"

text \<open>How many goroutines are in a place with the property \<open>P\<close>.\<close>

definition count_tasks :: "(phase \<Rightarrow> bool) \<Rightarrow> (Scanner \<times> phase) list \<Rightarrow> nat" where
  "count_tasks P ts = length (filter (\<lambda>t. P (snd t)) ts)"

text \<open>
  The state of the semaphore: the number of values in \<open>sem\<close> is the number of goroutines
  that hold a slot, and it is within the capacity.
\<close>

definition slots_ok :: "Options \<Rightarrow> RunAll_state \<Rightarrow> bool" where
  "slots_ok opts s \<longleftrightarrow> sem s = count_tasks holds_slot (tasks s) \<and> sem s \<le> limit opts"






text \<open>
  The append of the lookup-failure branch is the only access to \<open>results\<close> outside
  \<open>mu\<close>. It cannot overlap a goroutine's append when no unregistered name comes after a
  registered one in \<open>names\<close>: then every such append is over before the first goroutine
  starts.
\<close>

definition known :: "Registry \<Rightarrow> string \<Rightarrow> bool" where
  "known reg name = (case Registry_Get reg name of Inl e \<Rightarrow> False | Inr sc \<Rightarrow> True)"












text \<open>
  A sequential schedule for \<open>names\<close>: each name in turn, and for a registered one its
  goroutine from the \<open>select\<close> to the end before the loop goes on; \<open>k\<close> is the number
  of goroutines started before. The last step is the return.
\<close>

fun one_by_one :: "Registry \<Rightarrow> nat \<Rightarrow> string list \<Rightarrow> action list" where
  "one_by_one reg k [] = [MainStep]"
| "one_by_one reg k (name # rest) =
     (if known reg name
      then [MainStep, Acquire k, RunReturns k, LockMu k, UnlockMu k] @ one_by_one reg (Suc k) rest
      else [MainStep, MainStep] @ one_by_one reg k rest)"

text \<open>
  The caller is in its loop and no goroutine is under way (as at the start, and each time
  the sequential schedule is back in the loop).
\<close>

definition idle :: "RunAll_state \<Rightarrow> bool" where
  "idle s \<longleftrightarrow>
     main s = Loop \<and> list_all (\<lambda>t. snd t = Finished) (tasks s) \<and> \<not> mu s \<and> sem s = 0"

text \<open>The slice \<open>RunAll\<close> has returned, if it has.\<close>

fun returned :: "main_phase \<Rightarrow> ScanResult list option" where
  "returned (Returned rs) = Some rs"
| "returned Loop = None"
| "returned (Appending snap x) = None"
| "returned (Crashed v) = None"

definition RunAll_result :: "Runner \<Rightarrow> Target \<Rightarrow> Options \<Rightarrow> action list \<Rightarrow> Context \<Rightarrow> string list \<Rightarrow> ScanResult list option" where
  "RunAll_result r target opts sched c names =
     (case RunAll_exec r target opts sched (RunAll_init c names) of
        None \<Rightarrow> None
      | Some s \<Rightarrow> returned (main s))"

section \<open>Jobs (internal/web/jobs/job.go)\<close>

datatype JobStatus = StatusPending | StatusRunning | StatusCompleted | StatusFailed

record JobProgress =
  TotalScanners :: int
  CompletedScanners :: int
  CurrentScanner :: string

record Job =
  ID :: string
  Job_Target :: Target
  Scanners :: "string list"
  Job_Options :: Options
  Status :: JobStatus
  Results :: "ScanResult list"
  Job_Error :: string
  CreatedAt :: Time
  Job_StartedAt :: Time
  Job_CompletedAt :: Time
  Progress :: JobProgress

section \<open>Job manager (internal/web/jobs/manager.go)\<close>

text \<open>\<open>fmt.Sprintf("%d", n)\<close>: the decimal digits of an integer, with a sign when negative.\<close>

definition digit :: "nat \<Rightarrow> char" where
  "digit n = ''0123456789'' ! n"

fun digits :: "nat \<Rightarrow> string" where
  "digits n = (if n < 10 then [digit n] else digits (n div 10) @ [digit (n mod 10)])"

declare digits.simps [simp del]

definition sprint_d :: "int \<Rightarrow> string" where
  "sprint_d n = (if n < 0 then CHR ''-'' # digits (nat (- n)) else digits (nat n))"

text \<open>
  \<open>defaultNewUUID\<close> prints the clock: its argument is the value \<open>time.Now().UnixNano()\<close>
  has when the call reads it.
\<close>

definition defaultNewUUID :: "Time \<Rightarrow> string" where
  "defaultNewUUID now = sprint_d now"

text \<open>
  The manager's map holds pointers to jobs; here it holds the job each pointer leads to.
  Every method below runs under the manager's lock from its first statement to its last, so
  each is one step on the manager.
\<close>

record Manager =
  jobs :: "string \<rightharpoonup> Job"
  runner :: Runner

definition NewManager :: "Runner \<Rightarrow> Manager" where
  "NewManager r = \<lparr>jobs = Map.empty, runner = r\<rparr>"

text \<open>
  \<open>Create\<close> reads the clock twice: \<open>t_id\<close> inside \<open>newUUID()\<close>, \<open>t_created\<close> for
  \<open>CreatedAt\<close>. It returns the job and stores it under the job's id.
\<close>

definition Create :: "Time \<Rightarrow> Time \<Rightarrow> Target \<Rightarrow> string list \<Rightarrow> Options \<Rightarrow> Manager \<Rightarrow> Job \<times> Manager" where
  "Create t_id t_created target names opts m =
     (let job = \<lparr>ID = defaultNewUUID t_id,
                 Job_Target = target,
                 Scanners = names,
                 Job_Options = opts,
                 Status = StatusPending,
                 Results = [],
                 Job_Error = [],
                 CreatedAt = t_created,
                 Job_StartedAt = 0,
                 Job_CompletedAt = 0,
                 Progress = \<lparr>TotalScanners = int (length names),
                             CompletedScanners = 0,
                             CurrentScanner = []\<rparr>\<rparr>
      in (job, m\<lparr>jobs := (jobs m)(ID job \<mapsto> job)\<rparr>))"

text \<open>
  \<open>Start\<close> returns the error, the manager, and the job it hands to \<open>go m.execute(job)\<close>
  when it launches one.
\<close>

definition Start :: "Time \<Rightarrow> string \<Rightarrow> Manager \<Rightarrow> error option \<times> Manager \<times> Job option" where
  "Start now jobID m =
     (case jobs m jobID of
        None \<Rightarrow> (Some (Errorf (''job '' @ quote jobID @ '' not found'')), m, None)
      | Some job \<Rightarrow>
          (let job' = job\<lparr>Status := StatusRunning, Job_StartedAt := now\<rparr>
           in (None, m\<lparr>jobs := (jobs m)(jobID \<mapsto> job')\<rparr>, Some job')))"

definition Manager_Get :: "string \<Rightarrow> Manager \<Rightarrow> error + Job" where
  "Manager_Get jobID m =
     (case jobs m jobID of
        None \<Rightarrow> Inl (Errorf (''job '' @ quote jobID @ '' not found''))
      | Some job \<Rightarrow> Inr job)"

definition Delete :: "string \<Rightarrow> Manager \<Rightarrow> error option \<times> Manager" where
  "Delete jobID m =
     (case jobs m jobID of
        None \<Rightarrow> (Some (Errorf (''job '' @ quote jobID @ '' not found'')), m)
      | Some _ \<Rightarrow> (None, m\<lparr>jobs := (jobs m)(jobID := None)\<rparr>))"

subsection \<open>Manager.execute\<close>

text \<open>An int64 product or sum, wrapped around as the machine does.\<close>

definition wrap64 :: "int \<Rightarrow> int" where
  "wrap64 x = (x + 2 ^ 63) mod 2 ^ 64 - 2 ^ 63"

text \<open>
  The context \<open>execute\<close> hands to every scanner of the job: \<open>context.Background()\<close>, given
  a timeout only when \<open>Options.Timeout\<close> is positive.
\<close>

definition execute_ctx :: "Job \<Rightarrow> Context" where
  "execute_ctx job =
     (if Timeout (Job_Options job) > 0
      then WithTimeout Background
             (wrap64 (Timeout (Job_Options job) * (int (length (Scanners job)) + 1)))
      else Background)"

text \<open>One round of the loop body, after \<open>RunOne\<close> has returned \<open>(result, err)\<close>.\<close>

definition record_result :: "string \<Rightarrow> ScanResult option \<Rightarrow> error option \<Rightarrow> Job \<Rightarrow> Job" where
  "record_result name result e job =
     (let job1 =
        (case e of
           Some er \<Rightarrow>
             job\<lparr>Results := Results job @
                    [\<lparr>ScannerName = name, Target = Job_Target job, StartedAt = 0,
                      CompletedAt = 0, Findings = [], Error = Error_of er\<rparr>]\<rparr>
         | None \<Rightarrow>
             (case result of
                Some res \<Rightarrow> job\<lparr>Results := Results job @ [res]\<rparr>
              | None \<Rightarrow> job))
      in job1\<lparr>Progress := (Progress job1)\<lparr>CompletedScanners := CompletedScanners (Progress job1) + 1\<rparr>\<rparr>)"

text \<open>
  The job's context is made once and then has a life of its own: when its deadline passes,
  \<open>ctx.Err()\<close> turns from nil to \<open>DeadlineExceeded\<close>. \<open>fired k\<close> tells whether that has
  happened when round \<open>k\<close> of the loop calls \<open>RunOne\<close>.
\<close>

definition expire :: "Context \<Rightarrow> Context" where
  "expire c =
     (if deadline c \<noteq> None \<and> err c = None then c\<lparr>err := Some DeadlineExceeded\<rparr> else c)"

definition ctx_at :: "Context \<Rightarrow> (nat \<Rightarrow> bool) \<Rightarrow> nat \<Rightarrow> Context" where
  "ctx_at c fired k = (if fired k then expire c else c)"

text \<open>
  The loop over \<open>job.Scanners\<close>, from round \<open>k\<close> on. It ends with the job as the loop left
  it, and with the panic value when a scanner panicked (the rounds after it never run).
\<close>

fun execute_loop :: "Runner \<Rightarrow> Context \<Rightarrow> (nat \<Rightarrow> bool) \<Rightarrow> nat \<Rightarrow> string list \<Rightarrow> Job \<Rightarrow> string option \<times> Job" where
  "execute_loop r c fired k [] job = (None, job)"
| "execute_loop r c fired k (name # names) job =
     (let job1 = job\<lparr>Progress := (Progress job)\<lparr>CurrentScanner := name\<rparr>\<rparr>
      in case RunOne r (ctx_at c fired k) name (Job_Target job1) (Job_Options job1) of
           Panics v \<Rightarrow> (Some v, job1)
         | Returns result e \<Rightarrow>
             execute_loop r c fired (Suc k) names (record_result name result e job1))"

text \<open>
  \<open>execute\<close>: the loop, then either the completion block or, after a panic, the deferred
  recovery. \<open>now\<close> is the clock when \<open>CompletedAt\<close> is set.
\<close>

definition execute :: "Runner \<Rightarrow> Time \<Rightarrow> (nat \<Rightarrow> bool) \<Rightarrow> Job \<Rightarrow> Job" where
  "execute r now fired job =
     (case execute_loop r (execute_ctx job) fired 0 (Scanners job) job of
        (None, job') \<Rightarrow>
          job'\<lparr>Status := StatusCompleted, Job_CompletedAt := now,
               Progress := (Progress job')\<lparr>CurrentScanner := []\<rparr>\<rparr>
      | (Some v, job') \<Rightarrow>
          job'\<lparr>Status := StatusFailed, Job_Error := ''panic: '' @ v, Job_CompletedAt := now\<rparr>)"

section \<open>Scanners used in the examples\<close>

text \<open>The \<open>mockScanner\<close> of \<^verbatim>\<open>registry_test.go\<close>: one finding, no error.\<close>

definition mockScanner :: "string \<Rightarrow> Scanner" where
  "mockScanner name =
     \<lparr>Name = name, Scanner_Description = ''mock scanner'',
      Run = (\<lambda>ctx target opts.
        Returns (Some \<lparr>ScannerName = name, Target = target, StartedAt = 0, CompletedAt = 0,
                       Findings = [\<lparr>Title = ''mock finding'', Description = [],
                                    Severity = SeverityInfo, Evidence = [], Remediation = [],
                                    Metadata = Map.empty\<rparr>],
                       Error = []\<rparr>) None)\<rparr>"

text \<open>
  A scanner that fails before it scans, as \<open>dirs\<close> does when its wordlist cannot be
  loaded: \<open>return nil, fmt.Errorf("loading wordlist: %w", err)\<close>.
\<close>

definition failingScanner :: "string \<Rightarrow> Scanner" where
  "failingScanner name =
     \<lparr>Name = name, Scanner_Description = ''fails'',
      Run = (\<lambda>ctx target opts. Returns None (Some (Errorf ''loading wordlist: no such file'')))\<rparr>"

text \<open>A scanner whose \<open>Run\<close> returns \<open>(nil, nil)\<close>, and one whose \<open>Run\<close> panics.\<close>

definition nilScanner :: "string \<Rightarrow> Scanner" where
  "nilScanner name =
     \<lparr>Name = name, Scanner_Description = ''returns nothing'',
      Run = (\<lambda>ctx target opts. Returns None None)\<rparr>"


definition exampleTarget :: Target where
  "exampleTarget = \<lparr>Host = ''example.com'', Ports = [], URL = [], Scheme = ''https''\<rparr>"

text \<open>\<open>DefaultOptions\<close> (internal/scanner): concurrency 10, timeout five seconds.\<close>

definition DefaultOptions :: Options where
  "DefaultOptions = \<lparr>Concurrency = 10, Timeout = 5000000000, Verbose = False,
                     ExtraArgs = Map.empty\<rparr>"

text \<open>
  A manager with one pending job, created at clock 7 for the scanner \<open>test\<close>; the same
  manager after \<open>Start\<close> at clock 9.
\<close>

definition exampleManager :: Manager where
  "exampleManager =
     snd (Create 7 7 exampleTarget [''test''] DefaultOptions
            (NewManager (NewRunner (registry_of [mockScanner ''test'']))))"

definition startedManager :: Manager where
  "startedManager = fst (snd (Start 9 ''7'' exampleManager))"

text \<open>
  The job map once the background \<open>execute\<close> of the job stored under \<open>jobID\<close> has ended
  (the map holds the pointer \<open>execute\<close> writes through).
\<close>

definition execute_stored :: "Time \<Rightarrow> (nat \<Rightarrow> bool) \<Rightarrow> string \<Rightarrow> Manager \<Rightarrow> Manager" where
  "execute_stored now fired jobID m =
     (case jobs m jobID of
        None \<Rightarrow> m
      | Some job \<Rightarrow> m\<lparr>jobs := (jobs m)(jobID \<mapsto> execute (runner m) now fired job)\<rparr>)"

definition completedManager :: Manager where
  "completedManager = execute_stored 10 (\<lambda>k. False) ''7'' startedManager"

text \<open>Two \<open>Create\<close> calls in a row that both read the clock value 1000.\<close>

definition firstCreate :: "Job \<times> Manager" where
  "firstCreate =
     Create 1000 1000 exampleTarget [''a''] DefaultOptions (NewManager (NewRunner NewRegistry))"

definition secondCreate :: "Job \<times> Manager" where
  "secondCreate = Create 1000 1000 exampleTarget [''b''] DefaultOptions (snd firstCreate)"









text \<open>
  A runner with the mock scanners \<open>s1\<close> and \<open>s2\<close> of \<^verbatim>\<open>runner_test.go\<close>, and options that
  allow one scanner at a time.
\<close>

definition twoRunner :: Runner where
  "twoRunner = NewRunner (registry_of [mockScanner ''s1'', mockScanner ''s2''])"

definition oneAtATime :: Options where
  "oneAtATime = DefaultOptions\<lparr>Concurrency := 1\<rparr>"


section \<open>Severity ranking\<close>

lemma SeverityRank_known:
  "SeverityRank SeverityCritical = 0" "SeverityRank SeverityHigh = 1"
  "SeverityRank SeverityMedium = 2" "SeverityRank SeverityLow = 3"
  "SeverityRank SeverityInfo = 4"
  by (simp_all add: SeverityRank_def SeverityCritical_def SeverityHigh_def
      SeverityMedium_def SeverityLow_def SeverityInfo_def)

text \<open>
  C9. \<open>SeverityRank\<close> is defined on every string; on the five severities it is strictly
  increasing in the order Critical, High, Medium, Low, Info, and every other string gets a
  rank strictly after the rank of Info (a lower priority), which is the number 5.
\<close>

theorem SeverityRank_total_order:
  "SeverityRank SeverityCritical < SeverityRank SeverityHigh \<and>
   SeverityRank SeverityHigh < SeverityRank SeverityMedium \<and>
   SeverityRank SeverityMedium < SeverityRank SeverityLow \<and>
   SeverityRank SeverityLow < SeverityRank SeverityInfo \<and>
   (\<forall>s. s \<notin> {SeverityCritical, SeverityHigh, SeverityMedium, SeverityLow, SeverityInfo}
      \<longrightarrow> SeverityRank s = 5 \<and> SeverityRank SeverityInfo < SeverityRank s)"
proof -
  have "SeverityRank s = 5"
    if "s \<notin> {SeverityCritical, SeverityHigh, SeverityMedium, SeverityLow, SeverityInfo}" for s
    using that by (simp add: SeverityRank_def)
  then show ?thesis by (simp add: SeverityRank_known)
qed

theorem SeverityRank_total_order_witness:
  "''BOGUS'' \<notin> {SeverityCritical, SeverityHigh, SeverityMedium, SeverityLow, SeverityInfo} \<and>
   SeverityRank ''BOGUS'' = 5 \<and> SeverityRank SeverityInfo < SeverityRank ''BOGUS''"
proof -
  have out: "''BOGUS'' \<notin> {SeverityCritical, SeverityHigh, SeverityMedium, SeverityLow, SeverityInfo}"
    by (simp add: SeverityCritical_def SeverityHigh_def SeverityMedium_def SeverityLow_def
        SeverityInfo_def)
  from SeverityRank_total_order out show ?thesis by blast
qed


section \<open>Registry\<close>


lemma map_of_map_assign: "map_of (map_assign k v ps) = (map_of ps)(k \<mapsto> v)"
  by (induction ps) (auto simp: fun_eq_iff)

lemma keys_map_assign: "fst ` set (map_assign k v ps) = insert k (fst ` set ps)"
  by (simp add: dom_map_of_conv_image_fst [symmetric] map_of_map_assign)

lemma distinct_map_assign: "distinct (map fst ps) \<Longrightarrow> distinct (map fst (map_assign k v ps))"
  by (induction ps) (auto simp: keys_map_assign)


lemma set_map_assign: "set (map_assign k v ps) \<subseteq> insert (k, v) (set ps)"
  by (induction ps) (auto split: if_splits)

lemma keyed_by_name_assign: "keyed_by_name ps \<Longrightarrow> keyed_by_name (map_assign (Name s) s ps)"
  unfolding keyed_by_name_def using set_map_assign [of "Name s" s ps]
  by (auto simp: distinct_map_assign)

lemma keyed_by_name_foldl:
  "keyed_by_name (scanners r) \<Longrightarrow> keyed_by_name (scanners (foldl (\<lambda>r s. Register s r) r ss))"
  by (induction ss arbitrary: r) (simp_all add: Register_def keyed_by_name_assign)

lemma keyed_by_name_registry_of: "keyed_by_name (scanners (registry_of ss))"
  unfolding registry_of_def
  by (rule keyed_by_name_foldl) (simp add: NewRegistry_def keyed_by_name_def)

lemma keyed_names_distinct: "keyed_by_name ps \<Longrightarrow> distinct (map Name (map snd ps))"
proof -
  assume k: "keyed_by_name ps"
  then have "map Name (map snd ps) = map fst ps"
    by (auto simp: keyed_by_name_def)
  moreover from k have "distinct (map fst ps)" by (simp add: keyed_by_name_def)
  ultimately show ?thesis by (simp only:)
qed

lemma count_key_distinct:
  "distinct (map fst ps) \<Longrightarrow> k \<in> fst ` set ps \<Longrightarrow> length (filter (\<lambda>p. fst p = k) ps) = 1"
  by (induction ps) (auto simp: filter_empty_conv image_iff)

text \<open>
  C10. In any registry built by \<open>Register\<close> calls, registering \<open>s1\<close> and then \<open>s2\<close>
  with the same name leaves one entry under that name, \<open>Get\<close> of the name returns \<open>s2\<close>
  (\<open>Register\<close> has no error result), and \<open>All\<close> never lists two scanners of one name.
\<close>

theorem Register_last_wins:
  assumes "Name s1 = Name s2"
  shows "Registry_Get (Register s2 (Register s1 (registry_of ss))) (Name s2) = Inr s2 \<and>
         length (filter (\<lambda>p. fst p = Name s2)
                   (scanners (Register s2 (Register s1 (registry_of ss))))) = 1 \<and>
         distinct (map Name (Registry_All (Register s2 (Register s1 (registry_of ss))))) \<and>
         distinct (map Name (Registry_All (registry_of ss)))"
proof -
  let ?r = "Register s2 (Register s1 (registry_of ss))"
  have k: "keyed_by_name (scanners ?r)"
    by (simp add: Register_def keyed_by_name_assign keyed_by_name_registry_of)
  have g: "Registry_Get ?r (Name s2) = Inr s2"
    by (simp add: Registry_Get_def Register_def map_of_map_assign)
  have "Name s2 \<in> fst ` set (scanners ?r)"
    using keys_map_assign [of "Name s2" s2] by (simp add: Register_def)
  with k have c: "length (filter (\<lambda>p. fst p = Name s2) (scanners ?r)) = 1"
    by (simp add: keyed_by_name_def count_key_distinct)
  from k have d: "distinct (map Name (Registry_All ?r))"
    unfolding Registry_All_def by (rule keyed_names_distinct)
  have d0: "distinct (map Name (Registry_All (registry_of ss)))"
    unfolding Registry_All_def by (rule keyed_names_distinct) (rule keyed_by_name_registry_of)
  from g c d d0 show ?thesis by blast
qed


theorem Register_last_wins_witness:
  "Name (mockScanner ''test'') = Name ((mockScanner ''test'')\<lparr>Scanner_Description := ''second''\<rparr>) \<and>
   Registry_Get (Register ((mockScanner ''test'')\<lparr>Scanner_Description := ''second''\<rparr>)
     (Register (mockScanner ''test'') (registry_of [mockScanner ''a''])))
     ''test'' = Inr ((mockScanner ''test'')\<lparr>Scanner_Description := ''second''\<rparr>)"
proof -
  have n: "Name (mockScanner ''test'') = Name ((mockScanner ''test'')\<lparr>Scanner_Description := ''second''\<rparr>)"
    by (simp add: mockScanner_def)
  have n2: "Name ((mockScanner ''test'')\<lparr>Scanner_Description := ''second''\<rparr>) = ''test''"
    by (simp add: mockScanner_def)
  from Register_last_wins [OF n, of "[mockScanner ''a'']"] n n2 show ?thesis by simp
qed

section \<open>RunOne\<close>

text \<open>
  C7, as the code has it. \<open>RunOne\<close> returns \<open>(nil, err)\<close> with the lookup error when the
  name is not registered; for a registered name it returns exactly what the scanner's
  \<open>Run\<close> produced, whatever that is: a result, \<open>(nil, err)\<close>, or \<open>(nil, nil)\<close>.
\<close>

theorem RunOne_delegates:
  "(map_of (scanners (registry r)) name = None \<longrightarrow>
      RunOne r ctx name target opts =
        Returns None (Some (Errorf (''scanner '' @ quote name @ '' not found'')))) \<and>
   (\<forall>s. map_of (scanners (registry r)) name = Some s \<longrightarrow>
      RunOne r ctx name target opts = Run s ctx target opts)"
  by (simp add: RunOne_def Registry_Get_def)

lemma registry_of_single: "scanners (registry_of [s]) = [(Name s, s)]"
  by (simp add: registry_of_def Register_def NewRegistry_def)

theorem RunOne_delegates_witness:
  "map_of (scanners (registry (NewRunner NewRegistry))) ''nope'' = None \<and>
   RunOne (NewRunner NewRegistry) Background ''nope'' exampleTarget DefaultOptions =
     Returns None (Some (Errorf (''scanner '' @ quote ''nope'' @ '' not found''))) \<and>
   map_of (scanners (registry (NewRunner (registry_of [mockScanner ''test''])))) ''test'' =
     Some (mockScanner ''test'') \<and>
   RunOne (NewRunner (registry_of [mockScanner ''test''])) Background ''test'' exampleTarget DefaultOptions =
     Run (mockScanner ''test'') Background exampleTarget DefaultOptions"
proof -
  have a: "map_of (scanners (registry (NewRunner NewRegistry))) ''nope'' = None"
    by (simp add: NewRunner_def NewRegistry_def)
  have b: "map_of (scanners (registry (NewRunner (registry_of [mockScanner ''test''])))) ''test'' =
     Some (mockScanner ''test'')"
    by (simp add: NewRunner_def registry_of_single) (simp add: mockScanner_def)
  from a b RunOne_delegates [of "NewRunner NewRegistry" "''nope''" Background exampleTarget DefaultOptions]
    RunOne_delegates [of "NewRunner (registry_of [mockScanner ''test''])" "''test''" Background exampleTarget DefaultOptions]
  show ?thesis by simp
qed

text \<open>
  C7 as stated fails: a registered scanner whose \<open>Run\<close> returns \<open>(nil, nil)\<close> makes
  \<open>RunOne\<close> return a nil result with a nil error, and a registered scanner that fails to
  start (as \<open>dirs\<close> without its wordlist) makes it return \<open>(nil, err)\<close> although the lookup
  succeeded.
\<close>

theorem RunOne_nil_counterexample:
  "Registry_Get (registry_of [nilScanner ''known'']) ''known'' = Inr (nilScanner ''known'') \<and>
   RunOne (NewRunner (registry_of [nilScanner ''known''])) Background ''known'' exampleTarget
     DefaultOptions = Returns None None \<and>
   Registry_Get (registry_of [failingScanner ''dirs'']) ''dirs'' = Inr (failingScanner ''dirs'') \<and>
   RunOne (NewRunner (registry_of [failingScanner ''dirs''])) Background ''dirs'' exampleTarget
     DefaultOptions = Returns None (Some (Errorf ''loading wordlist: no such file''))"
  by (simp add: RunOne_def Registry_Get_def NewRunner_def registry_of_single)
     (simp add: nilScanner_def failingScanner_def)

section \<open>Start\<close>

text \<open>
  C3, as the code has it. \<open>Start\<close> on an id that is not stored returns the not-found error
  and leaves the manager as it was. \<open>Start\<close> on a stored job does not look at its status:
  whatever the status is, it sets it to Running, sets \<open>StartedAt\<close>, returns no error and
  launches an execution of the job; no other job changes.
\<close>

theorem Start_sets_running:
  "(jobs m jobID = None \<longrightarrow>
      Start now jobID m = (Some (Errorf (''job '' @ quote jobID @ '' not found'')), m, None)) \<and>
   (\<forall>job. jobs m jobID = Some job \<longrightarrow>
      (\<exists>m'. Start now jobID m =
               (None, m', Some (job\<lparr>Status := StatusRunning, Job_StartedAt := now\<rparr>)) \<and>
            jobs m' jobID = Some (job\<lparr>Status := StatusRunning, Job_StartedAt := now\<rparr>) \<and>
            (\<forall>other. other \<noteq> jobID \<longrightarrow> jobs m' other = jobs m other)))"
  by (simp add: Start_def Let_def)

lemma sprint_d_7: "sprint_d 7 = ''7''"
  by (simp add: sprint_d_def digits.simps digit_def)

lemma exampleManager_job:
  "jobs exampleManager ''7'' = Some (fst (Create 7 7 exampleTarget [''test''] DefaultOptions
            (NewManager (NewRunner (registry_of [mockScanner ''test''])))))"
  by (simp add: exampleManager_def Create_def Let_def defaultNewUUID_def sprint_d_7)

theorem Start_sets_running_witness:
  "jobs exampleManager ''8'' = None \<and>
   Start 9 ''8'' exampleManager =
     (Some (Errorf (''job '' @ quote ''8'' @ '' not found'')), exampleManager, None) \<and>
   (\<exists>job. jobs exampleManager ''7'' = Some job \<and> Status job = StatusPending \<and>
      jobs (fst (snd (Start 9 ''7'' exampleManager))) ''7'' =
        Some (job\<lparr>Status := StatusRunning, Job_StartedAt := 9\<rparr>) \<and>
      snd (snd (Start 9 ''7'' exampleManager)) =
        Some (job\<lparr>Status := StatusRunning, Job_StartedAt := 9\<rparr>))"
proof -
  have a: "jobs exampleManager ''8'' = None"
    by (simp add: exampleManager_def Create_def Let_def defaultNewUUID_def sprint_d_7 NewManager_def)
  let ?job = "fst (Create 7 7 exampleTarget [''test''] DefaultOptions
            (NewManager (NewRunner (registry_of [mockScanner ''test'']))))"
  have p: "Status ?job = StatusPending" by (simp add: Create_def Let_def)
  from Start_sets_running [of exampleManager "''7''" 9] exampleManager_job
  obtain m' where
    s: "Start 9 ''7'' exampleManager =
          (None, m', Some (?job\<lparr>Status := StatusRunning, Job_StartedAt := 9\<rparr>))"
    and j: "jobs m' ''7'' = Some (?job\<lparr>Status := StatusRunning, Job_StartedAt := 9\<rparr>)"
    by blast
  from s j exampleManager_job p a Start_sets_running [of exampleManager "''8''" 9]
  show ?thesis by simp
qed

lemma exampleManager_jobs:
  "jobs exampleManager = [''7'' \<mapsto> fst (Create 7 7 exampleTarget [''test''] DefaultOptions
            (NewManager (NewRunner (registry_of [mockScanner ''test'']))))]"
  by (simp add: exampleManager_def Create_def Let_def defaultNewUUID_def sprint_d_7 NewManager_def)

lemma startedManager_jobs:
  "jobs startedManager = [''7'' \<mapsto> (fst (Create 7 7 exampleTarget [''test''] DefaultOptions
            (NewManager (NewRunner (registry_of [mockScanner ''test'']))))) \<lparr>Status := StatusRunning, Job_StartedAt := 9\<rparr>]"
  by (simp add: startedManager_def Start_def exampleManager_jobs Let_def)

lemma startedManager_runner:
  "runner startedManager = NewRunner (registry_of [mockScanner ''test''])"
  by (simp add: startedManager_def Start_def exampleManager_jobs Let_def) (simp add: exampleManager_def Create_def Let_def NewManager_def)

lemma completed_status:
  "map_option Status (jobs completedManager ''7'') = Some StatusCompleted"
  by (simp add: completedManager_def execute_stored_def startedManager_jobs startedManager_runner
      execute_def Create_def Let_def RunOne_def Registry_Get_def NewRunner_def registry_of_single
      mockScanner_def record_result_def split: prod.splits)

text \<open>
  C3 as stated fails: \<open>Start\<close> on a job that is already Running, and on a job that is
  Completed, returns no error, launches another execution and sets the status to Running.
\<close>

theorem Start_restarts_counterexample:
  "map_option Status (jobs startedManager ''7'') = Some StatusRunning \<and>
   fst (Start 10 ''7'' startedManager) = None \<and>
   snd (snd (Start 10 ''7'' startedManager)) \<noteq> None \<and>
   map_option Status (jobs completedManager ''7'') = Some StatusCompleted \<and>
   fst (Start 11 ''7'' completedManager) = None \<and>
   map_option Status (jobs (fst (snd (Start 11 ''7'' completedManager))) ''7'') = Some StatusRunning"
proof -
  have a: "map_option Status (jobs startedManager ''7'') = Some StatusRunning"
    by (simp add: startedManager_jobs)
  have b: "fst (Start 10 ''7'' startedManager) = None \<and> snd (snd (Start 10 ''7'' startedManager)) \<noteq> None"
    by (simp add: Start_def startedManager_jobs Let_def)
  from completed_status obtain job where j: "jobs completedManager ''7'' = Some job"
    by (cases "jobs completedManager ''7''") auto
  then have c: "fst (Start 11 ''7'' completedManager) = None \<and>
      map_option Status (jobs (fst (snd (Start 11 ''7'' completedManager))) ''7'') = Some StatusRunning"
    by (simp add: Start_def Let_def)
  from a b c completed_status show ?thesis by simp
qed

section \<open>Create\<close>

lemma Create_stores:
  "Create t1 t2 target names opts m = (job, m') \<Longrightarrow>
     jobs m' (ID job) = Some job \<and> ID job = defaultNewUUID t1 \<and> Status job = StatusPending \<and>
     TotalScanners (Progress job) = int (length names) \<and>
     (\<forall>other. other \<noteq> ID job \<longrightarrow> jobs m' other = jobs m other)"
  by (auto simp: Create_def Let_def)

text \<open>
  C4 asks that two \<open>Create\<close> calls never get the same id and that both jobs stay in the
  map. The code does not do this. The id is the clock reading and nothing else (the comment
  on \<open>defaultNewUUID\<close> speaks of a timestamp and a counter; there is no counter), so two
  \<open>Create\<close> calls that read the same clock value get the same id, and the second
  replaces the first in the job map: here both ids are \<open>1000\<close> and the map ends with one
  job, the second.
\<close>

theorem Create_same_clock_collides:
  "ID (fst firstCreate) = ''1000'' \<and> ID (fst secondCreate) = ''1000'' \<and>
   Scanners (fst firstCreate) = [''a''] \<and>
   jobs (snd firstCreate) ''1000'' = Some (fst firstCreate) \<and>
   jobs (snd secondCreate) ''1000'' = Some (fst secondCreate) \<and>
   map_option Scanners (jobs (snd secondCreate) ''1000'') = Some [''b''] \<and>
   dom (jobs (snd secondCreate)) = {''1000''}"
  by (simp add: firstCreate_def secondCreate_def Create_def Let_def defaultNewUUID_def
      sprint_d_def digits.simps digit_def NewManager_def)

section \<open>Not-found errors\<close>

lemma quote_body_plain: "list_all plain_char s \<Longrightarrow> quote_body s = s"
  by (induction s) (auto simp: plain_char_def escaped_def IsPrint_def)

lemma quote_plain: "list_all plain_char s \<Longrightarrow> quote s = [dquote] @ s @ [dquote]"
  by (simp add: quote_def quote_body_plain)

text \<open>
  \<open>%q\<close> on text beyond ASCII: a printable rune of two bytes is copied (\<open>U+00E9\<close>), a
  control character of two bytes is written \<open>\u0080\<close>, a byte that is not UTF-8 is written
  \<open>\xff\<close>, and a newline is written \<open>\n\<close>.
\<close>

lemma quote_examples:
  "quote [CHR 0xC3, CHR 0xA9] = [dquote, CHR 0xC3, CHR 0xA9, dquote]"
  "quote [CHR 0xC2, CHR 0x80] = [dquote] @ [backslash] @ ''u0080'' @ [dquote]"
  "quote [CHR 0xFF] = [dquote] @ [backslash] @ ''xff'' @ [dquote]"
  "quote [CHR 0x0A] = [dquote] @ [backslash] @ ''n'' @ [dquote]"
  by (simp_all add: quote_def decode_rune_def between_def low6_def escaped_def IsPrint_def
      hexdigit_def dquote_def backslash_def hex2_def hex4_def)

text \<open>
  C6, as the code has it. Every not-found failure of \<open>Registry.Get\<close> and of the manager's
  \<open>Get\<close>, \<open>Start\<close> and \<open>Delete\<close> is the plain error that \<open>fmt.Errorf\<close> builds, carrying
  only its message: \<open>scanner\<close> or \<open>job\<close>, the name or id as \<open>%q\<close> prints it, and
  \<open>not found\<close>. For a name or id made of printable ASCII other than the double quote and
  the backslash, \<open>%q\<close> puts it between double quotes unchanged.
\<close>

theorem not_found_errors:
  "(map_of (scanners r) name = None \<longrightarrow>
      Registry_Get r name = Inl (Errorf (''scanner '' @ quote name @ '' not found''))) \<and>
   (jobs m jobID = None \<longrightarrow>
      Manager_Get jobID m = Inl (Errorf (''job '' @ quote jobID @ '' not found'')) \<and>
      fst (Start now jobID m) = Some (Errorf (''job '' @ quote jobID @ '' not found'')) \<and>
      fst (Delete jobID m) = Some (Errorf (''job '' @ quote jobID @ '' not found''))) \<and>
   (list_all plain_char name \<longrightarrow>
      ''scanner '' @ quote name @ '' not found'' =
      ''scanner '' @ [dquote] @ name @ [dquote] @ '' not found'') \<and>
   (list_all plain_char jobID \<longrightarrow>
      ''job '' @ quote jobID @ '' not found'' =
      ''job '' @ [dquote] @ jobID @ [dquote] @ '' not found'')"
  by (simp add: Registry_Get_def Manager_Get_def Start_def Delete_def quote_plain)

theorem not_found_errors_witness:
  "map_of (scanners NewRegistry) ''nonexistent'' = None \<and>
   Registry_Get NewRegistry ''nonexistent'' =
     Inl (Errorf (''scanner '' @ [dquote] @ ''nonexistent'' @ [dquote] @ '' not found'')) \<and>
   jobs exampleManager ''nonexistent'' = None \<and>
   Manager_Get ''nonexistent'' exampleManager =
     Inl (Errorf (''job '' @ [dquote] @ ''nonexistent'' @ [dquote] @ '' not found'')) \<and>
   fst (Start 9 ''nonexistent'' exampleManager) =
     Some (Errorf (''job '' @ [dquote] @ ''nonexistent'' @ [dquote] @ '' not found'')) \<and>
   fst (Delete ''nonexistent'' exampleManager) =
     Some (Errorf (''job '' @ [dquote] @ ''nonexistent'' @ [dquote] @ '' not found'')) \<and>
   list_all plain_char ''nonexistent''"
proof -
  have a: "map_of (scanners NewRegistry) ''nonexistent'' = None"
    by (simp add: NewRegistry_def)
  have b: "jobs exampleManager ''nonexistent'' = None"
    by (simp add: exampleManager_jobs)
  have c: "list_all plain_char ''nonexistent''"
    by (simp add: plain_char_def)
  from a b c not_found_errors [of NewRegistry "''nonexistent''" exampleManager "''nonexistent''" 9]
  show ?thesis by simp
qed

text \<open>
  C6 as stated fails. The error is an \<open>Errorf\<close> value, with no type of its own to tell it
  from any other error, and its message is not always the name between double quotes: for
  the name \<open>a"b\<close> the quote inside is escaped.
\<close>

theorem not_found_quoting_counterexample:
  "map_of (scanners NewRegistry) [CHR ''a'', dquote, CHR ''b''] = None \<and>
   Registry_Get NewRegistry [CHR ''a'', dquote, CHR ''b''] =
     Inl (Errorf (''scanner '' @ [dquote, CHR ''a'', backslash, dquote, CHR ''b'', dquote] @ '' not found'')) \<and>
   Registry_Get NewRegistry [CHR ''a'', dquote, CHR ''b''] \<noteq>
     Inl (Errorf (''scanner '' @ [dquote] @ [CHR ''a'', dquote, CHR ''b''] @ [dquote] @ '' not found'')) \<and>
   Manager_Get [CHR ''a'', dquote, CHR ''b''] (NewManager (NewRunner NewRegistry)) =
     Inl (Errorf (''job '' @ [dquote, CHR ''a'', backslash, dquote, CHR ''b'', dquote] @ '' not found'')) \<and>
   Manager_Get [CHR ''a'', dquote, CHR ''b''] (NewManager (NewRunner NewRegistry)) \<noteq>
     Inl (Errorf (''job '' @ [dquote] @ [CHR ''a'', dquote, CHR ''b''] @ [dquote] @ '' not found''))"
  by (simp add: Registry_Get_def Manager_Get_def NewRegistry_def NewManager_def quote_def
      escaped_def IsPrint_def dquote_def backslash_def)

section \<open>execute: the deadline\<close>








section \<open>execute: progress and results\<close>
















section \<open>RunAll\<close>

lemma step_dead: "\<not> live (main s) \<Longrightarrow> RunAll_step r target opts a s = None"
  by (simp add: RunAll_step_def)

lemma step_Acquire:
  "RunAll_step r target opts (Acquire i) s = Some s' \<longleftrightarrow>
     live (main s) \<and> i < length (tasks s) \<and> snd (tasks s ! i) = AtSelect \<and>
     sem s < limit opts \<and>
     s' = s\<lparr>tasks := (tasks s)[i := (fst (tasks s ! i), InRun)], sem := sem s + 1\<rparr>"
  by (cases "snd (tasks s ! i)") (auto simp: RunAll_step_def task_step_def task_move_def)

lemma step_ObserveDone:
  "RunAll_step r target opts (ObserveDone i) s = Some s' \<longleftrightarrow>
     live (main s) \<and> i < length (tasks s) \<and> snd (tasks s ! i) = AtSelect \<and>
     (\<exists>e. err (caller_ctx s) = Some e \<and>
        s' = s\<lparr>tasks := (tasks s)
               [i := (fst (tasks s ! i),
                      WantLock (Some (failure (Name (fst (tasks s ! i))) target (Error_of e))) False)]\<rparr>)"
  by (cases "snd (tasks s ! i)")
     (auto simp: RunAll_step_def task_step_def task_move_def split: option.splits)

lemma step_RunReturns:
  "RunAll_step r target opts (RunReturns i) s = Some s' \<longleftrightarrow>
     live (main s) \<and> i < length (tasks s) \<and> snd (tasks s ! i) = InRun \<and>
     (case Run (fst (tasks s ! i)) (caller_ctx s) target opts of
        Panics v \<Rightarrow> s' = s\<lparr>main := Crashed v\<rparr>
      | Returns result e \<Rightarrow>
          s' = s\<lparr>tasks := (tasks s)
                 [i := (fst (tasks s ! i),
                        WantLock (task_entry (fst (tasks s ! i)) target result e) True)]\<rparr>)"
  by (cases "snd (tasks s ! i)")
     (auto simp: RunAll_step_def task_step_def task_move_def split: run_outcome.splits)

lemma step_LockMu:
  "RunAll_step r target opts (LockMu i) s = Some s' \<longleftrightarrow>
     live (main s) \<and> i < length (tasks s) \<and> \<not> mu s \<and>
     (\<exists>entry held. snd (tasks s ! i) = WantLock entry held \<and>
        s' = s\<lparr>tasks := (tasks s)[i := (fst (tasks s ! i), Locked (results s) entry held)],
               mu := True\<rparr>)"
  by (cases "snd (tasks s ! i)") (auto simp: RunAll_step_def task_step_def task_move_def)

lemma step_UnlockMu:
  "RunAll_step r target opts (UnlockMu i) s = Some s' \<longleftrightarrow>
     live (main s) \<and> i < length (tasks s) \<and>
     (\<exists>snap entry held. snd (tasks s ! i) = Locked snap entry held \<and>
        s' = s\<lparr>tasks := (tasks s)[i := (fst (tasks s ! i), Finished)],
               results := (case entry of None \<Rightarrow> results s | Some x \<Rightarrow> snap @ [x]),
               mu := False,
               sem := (if held then sem s - 1 else sem s)\<rparr>)"
  by (cases "snd (tasks s ! i)") (auto simp: RunAll_step_def task_step_def task_move_def)

lemma step_Cancel:
  "RunAll_step r target opts (Cancel e) s = Some s' \<longleftrightarrow>
     live (main s) \<and> err (caller_ctx s) = None \<and>
     s' = s\<lparr>caller_ctx := (caller_ctx s)\<lparr>err := Some e\<rparr>\<rparr>"
  by (auto simp: RunAll_step_def)

lemma step_MainStep:
  "RunAll_step r target opts MainStep s = Some s' \<longleftrightarrow>
     (case main s of
        Loop \<Rightarrow>
          (case names_left s of
             [] \<Rightarrow> list_all (\<lambda>t. snd t = Finished) (tasks s) \<and> s' = s\<lparr>main := Returned (results s)\<rparr>
           | name # rest \<Rightarrow>
               (case Registry_Get (registry r) name of
                  Inl e \<Rightarrow>
                    s' = s\<lparr>names_left := rest,
                           main := Appending (results s) (failure name target (Error_of e))\<rparr>
                | Inr sc \<Rightarrow>
                    s' = s\<lparr>names_left := rest, tasks := tasks s @ [(sc, AtSelect)]\<rparr>))
      | Appending snap x \<Rightarrow> s' = s\<lparr>results := snap @ [x], main := Loop\<rparr>
      | Returned rs \<Rightarrow> False
      | Crashed v \<Rightarrow> False)"
  by (auto simp: RunAll_step_def main_step_def split: main_phase.splits list.splits sum.splits)

lemma RunAll_step_cases [consumes 1, case_names Return Unknown Spawn Store Cancel Acquire
    Observe Panic Ran Lock Unlock]:
  assumes "RunAll_step r target opts a s = Some s'"
  obtains
    (Return) "a = MainStep" "main s = Loop" "names_left s = []"
      "list_all (\<lambda>t. snd t = Finished) (tasks s)" "s' = s\<lparr>main := Returned (results s)\<rparr>"
  | (Unknown) name rest e where "a = MainStep" "main s = Loop" "names_left s = name # rest"
      "Registry_Get (registry r) name = Inl e"
      "s' = s\<lparr>names_left := rest,
               main := Appending (results s) (failure name target (Error_of e))\<rparr>"
  | (Spawn) name rest sc where "a = MainStep" "main s = Loop" "names_left s = name # rest"
      "Registry_Get (registry r) name = Inr sc"
      "s' = s\<lparr>names_left := rest, tasks := tasks s @ [(sc, AtSelect)]\<rparr>"
  | (Store) snap x where "a = MainStep" "main s = Appending snap x"
      "s' = s\<lparr>results := snap @ [x], main := Loop\<rparr>"
  | (Cancel) e where "a = Cancel e" "live (main s)" "err (caller_ctx s) = None"
      "s' = s\<lparr>caller_ctx := (caller_ctx s)\<lparr>err := Some e\<rparr>\<rparr>"
  | (Acquire) i sc where "a = Acquire i" "live (main s)" "i < length (tasks s)"
      "tasks s ! i = (sc, AtSelect)" "sem s < limit opts"
      "s' = s\<lparr>tasks := (tasks s)[i := (sc, InRun)], sem := sem s + 1\<rparr>"
  | (Observe) i sc e where "a = ObserveDone i" "live (main s)" "i < length (tasks s)"
      "tasks s ! i = (sc, AtSelect)" "err (caller_ctx s) = Some e"
      "s' = s\<lparr>tasks := (tasks s)
                [i := (sc, WantLock (Some (failure (Name sc) target (Error_of e))) False)]\<rparr>"
  | (Panic) i sc v where "a = RunReturns i" "live (main s)" "i < length (tasks s)"
      "tasks s ! i = (sc, InRun)" "Run sc (caller_ctx s) target opts = Panics v"
      "s' = s\<lparr>main := Crashed v\<rparr>"
  | (Ran) i sc result e where "a = RunReturns i" "live (main s)" "i < length (tasks s)"
      "tasks s ! i = (sc, InRun)" "Run sc (caller_ctx s) target opts = Returns result e"
      "s' = s\<lparr>tasks := (tasks s)[i := (sc, WantLock (task_entry sc target result e) True)]\<rparr>"
  | (Lock) i sc entry held where "a = LockMu i" "live (main s)" "i < length (tasks s)"
      "tasks s ! i = (sc, WantLock entry held)" "\<not> mu s"
      "s' = s\<lparr>tasks := (tasks s)[i := (sc, Locked (results s) entry held)], mu := True\<rparr>"
  | (Unlock) i sc snap entry held where "a = UnlockMu i" "live (main s)" "i < length (tasks s)"
      "tasks s ! i = (sc, Locked snap entry held)"
      "s' = s\<lparr>tasks := (tasks s)[i := (sc, Finished)],
               results := (case entry of None \<Rightarrow> results s | Some x \<Rightarrow> snap @ [x]),
               mu := False,
               sem := (if held then sem s - 1 else sem s)\<rparr>"
proof (cases a)
  case MainStep
  with assms have m: "RunAll_step r target opts MainStep s = Some s'" by simp
  show ?thesis
  proof (cases "main s")
    case Loop
    show ?thesis
    proof (cases "names_left s")
      case Nil
      with m Loop MainStep show ?thesis by (intro Return) (simp_all add: step_MainStep)
    next
      case (Cons name rest)
      show ?thesis
      proof (cases "Registry_Get (registry r) name")
        case (Inl e)
        with m Loop Cons MainStep show ?thesis
          by (intro Unknown [of name rest e]) (simp_all add: step_MainStep)
      next
        case (Inr sc)
        with m Loop Cons MainStep show ?thesis
          by (intro Spawn [of name rest sc]) (simp_all add: step_MainStep)
      qed
    qed
  next
    case (Appending snap x)
    with m MainStep show ?thesis by (intro Store [of snap x]) (simp_all add: step_MainStep)
  next
    case (Returned rs)
    with m show ?thesis by (simp add: step_MainStep)
  next
    case (Crashed v)
    with m show ?thesis by (simp add: step_MainStep)
  qed
next
  case (Acquire i)
  with assms have "RunAll_step r target opts (Acquire i) s = Some s'" by simp
  then show ?thesis
    unfolding step_Acquire using Acquire
    by (intro that(6) [of i "fst (tasks s ! i)"]) (auto simp: prod_eq_iff)
next
  case (ObserveDone i)
  with assms have "RunAll_step r target opts (ObserveDone i) s = Some s'" by simp
  then obtain e where "live (main s)" "i < length (tasks s)" "snd (tasks s ! i) = AtSelect"
    "err (caller_ctx s) = Some e"
    "s' = s\<lparr>tasks := (tasks s)
               [i := (fst (tasks s ! i),
                      WantLock (Some (failure (Name (fst (tasks s ! i))) target (Error_of e))) False)]\<rparr>"
    unfolding step_ObserveDone by blast
  with ObserveDone show ?thesis
    by (intro that(7) [of i "fst (tasks s ! i)" e]) (auto simp: prod_eq_iff)
next
  case (RunReturns i)
  with assms have st: "RunAll_step r target opts (RunReturns i) s = Some s'" by simp
  show ?thesis
  proof (cases "Run (fst (tasks s ! i)) (caller_ctx s) target opts")
    case (Panics v)
    with st RunReturns show ?thesis
      unfolding step_RunReturns
      by (intro that(8) [of i "fst (tasks s ! i)" v]) (auto simp: prod_eq_iff)
  next
    case (Returns result e)
    with st RunReturns show ?thesis
      unfolding step_RunReturns
      by (intro that(9) [of i "fst (tasks s ! i)" result e]) (auto simp: prod_eq_iff)
  qed
next
  case (LockMu i)
  with assms have "RunAll_step r target opts (LockMu i) s = Some s'" by simp
  then obtain entry held where "live (main s)" "i < length (tasks s)" "\<not> mu s"
    "snd (tasks s ! i) = WantLock entry held"
    "s' = s\<lparr>tasks := (tasks s)[i := (fst (tasks s ! i), Locked (results s) entry held)],
               mu := True\<rparr>"
    unfolding step_LockMu by blast
  with LockMu show ?thesis
    by (intro that(10) [of i "fst (tasks s ! i)" entry held]) (auto simp: prod_eq_iff)
next
  case (UnlockMu i)
  with assms have "RunAll_step r target opts (UnlockMu i) s = Some s'" by simp
  then obtain snap entry held where "live (main s)" "i < length (tasks s)"
    "snd (tasks s ! i) = Locked snap entry held"
    "s' = s\<lparr>tasks := (tasks s)[i := (fst (tasks s ! i), Finished)],
               results := (case entry of None \<Rightarrow> results s | Some x \<Rightarrow> snap @ [x]),
               mu := False,
               sem := (if held then sem s - 1 else sem s)\<rparr>"
    unfolding step_UnlockMu by blast
  with UnlockMu show ?thesis
    by (intro that(11) [of i "fst (tasks s ! i)" snap entry held]) (auto simp: prod_eq_iff)
next
  case (Cancel e)
  with assms have "RunAll_step r target opts (Cancel e) s = Some s'" by simp
  with Cancel show ?thesis
    unfolding step_Cancel by (intro that(5) [of e]) auto
qed

lemma count_tasks_append:
  "count_tasks P (ts @ [t]) = count_tasks P ts + (if P (snd t) then 1 else 0)"
  by (simp add: count_tasks_def)

lemma count_tasks_update:
  "i < length ts \<Longrightarrow>
     count_tasks P (ts[i := t]) + (if P (snd (ts ! i)) then 1 else 0) =
     count_tasks P ts + (if P (snd t) then 1 else 0)"
proof (induction ts arbitrary: i)
  case Nil
  then show ?case by simp
next
  case (Cons u us)
  show ?case
  proof (cases i)
    case 0
    then show ?thesis by (simp add: count_tasks_def)
  next
    case (Suc k)
    with Cons.prems have "k < length us" by simp
    from Cons.IH [OF this] Suc show ?thesis by (simp add: count_tasks_def)
  qed
qed

lemma count_tasks_mono:
  "(\<And>p. P p \<Longrightarrow> Q p) \<Longrightarrow> count_tasks P ts \<le> count_tasks Q ts"
  by (induction ts) (auto simp: count_tasks_def)

lemma slots_ok_init: "slots_ok opts (RunAll_init c names)"
  by (simp add: slots_ok_def RunAll_init_def count_tasks_def)

lemma slots_ok_step:
  assumes "RunAll_step r target opts a s = Some s'" and "slots_ok opts s"
  shows "slots_ok opts s'"
  using assms(1)
proof (cases rule: RunAll_step_cases)
  case (Acquire i sc)
  with count_tasks_update [of i "tasks s" holds_slot "(sc, InRun)"] assms(2)
  show ?thesis by (simp add: slots_ok_def)
next
  case (Observe i sc e)
  with count_tasks_update [of i "tasks s" holds_slot
      "(sc, WantLock (Some (failure (Name sc) target (Error_of e))) False)"] assms(2)
  show ?thesis by (simp add: slots_ok_def)
next
  case (Ran i sc result e)
  with count_tasks_update [of i "tasks s" holds_slot
      "(sc, WantLock (task_entry sc target result e) True)"] assms(2)
  show ?thesis by (simp add: slots_ok_def)
next
  case (Lock i sc entry held)
  with count_tasks_update [of i "tasks s" holds_slot "(sc, Locked (results s) entry held)"]
    assms(2)
  show ?thesis by (simp add: slots_ok_def)
next
  case (Unlock i sc snap entry held)
  with count_tasks_update [of i "tasks s" holds_slot "(sc, Finished)"] assms(2)
  show ?thesis by (auto simp: slots_ok_def)
qed (use assms(2) in \<open>simp_all add: slots_ok_def count_tasks_append\<close>)

lemma slots_ok_exec:
  "RunAll_exec r target opts sched s = Some s' \<Longrightarrow> slots_ok opts s \<Longrightarrow> slots_ok opts s'"
proof (induction sched arbitrary: s)
  case Nil
  then show ?case by simp
next
  case (Cons a sched)
  then obtain s1 where 1: "RunAll_step r target opts a s = Some s1"
    and 2: "RunAll_exec r target opts sched s1 = Some s'"
    by (auto split: option.splits)
  from slots_ok_step [OF 1 Cons.prems(2)] Cons.IH [OF 2] show ?case by simp
qed

text \<open>
  C5. In every state that any interleaving of a \<open>RunAll\<close> call reaches, the scanners
  whose \<open>Run\<close> is in flight are among the goroutines that hold a slot of \<open>sem\<close>, those
  are as many as \<open>sem\<close> holds values, and that is at most the capacity, which is
  \<open>max(1, opts.Concurrency)\<close>.
\<close>

theorem RunAll_concurrency_bound:
  assumes "RunAll_exec r target opts sched (RunAll_init c names) = Some s"
  shows "count_tasks (\<lambda>p. p = InRun) (tasks s) \<le> count_tasks holds_slot (tasks s) \<and>
         count_tasks holds_slot (tasks s) = sem s \<and>
         sem s \<le> limit opts \<and>
         int (limit opts) = max 1 (Concurrency opts)"
proof -
  from slots_ok_exec [OF assms slots_ok_init]
  have "sem s = count_tasks holds_slot (tasks s)" "sem s \<le> limit opts"
    by (simp_all add: slots_ok_def)
  moreover have "count_tasks (\<lambda>p. p = InRun) (tasks s) \<le> count_tasks holds_slot (tasks s)"
    by (rule count_tasks_mono) simp
  moreover have "int (limit opts) = max 1 (Concurrency opts)"
    by (simp add: limit_def)
  ultimately show ?thesis by simp
qed

lemma twoRunner_Get:
  "Registry_Get (registry twoRunner) ''s1'' = Inr (mockScanner ''s1'')"
  "Registry_Get (registry twoRunner) ''s2'' = Inr (mockScanner ''s2'')"
  by (simp_all add: twoRunner_def NewRunner_def registry_of_def Register_def NewRegistry_def
      Registry_Get_def mockScanner_def)

lemma two_started:
  "RunAll_exec twoRunner exampleTarget oneAtATime [MainStep, MainStep, Acquire 0]
     (RunAll_init Background [''s1'', ''s2'']) =
   Some \<lparr>names_left = [], main = Loop,
         tasks = [(mockScanner ''s1'', InRun), (mockScanner ''s2'', AtSelect)],
         sem = 1, mu = False, results = [], caller_ctx = Background\<rparr>"
  by (simp add: RunAll_step_def main_step_def task_step_def task_move_def RunAll_init_def
      twoRunner_Get limit_def oneAtATime_def DefaultOptions_def)

theorem RunAll_concurrency_bound_witness:
  "map_option (\<lambda>s. count_tasks (\<lambda>p. p = InRun) (tasks s))
     (RunAll_exec twoRunner exampleTarget oneAtATime [MainStep, MainStep, Acquire 0]
        (RunAll_init Background [''s1'', ''s2''])) = Some 1 \<and>
   map_option sem
     (RunAll_exec twoRunner exampleTarget oneAtATime [MainStep, MainStep, Acquire 0]
        (RunAll_init Background [''s1'', ''s2''])) = Some 1 \<and>
   limit oneAtATime = 1 \<and>
   RunAll_exec twoRunner exampleTarget oneAtATime [MainStep, MainStep, Acquire 0, Acquire 1]
     (RunAll_init Background [''s1'', ''s2'']) = None"
proof -
  note b = RunAll_concurrency_bound [OF two_started]
  have l: "limit oneAtATime = 1"
    by (simp add: limit_def oneAtATime_def DefaultOptions_def)
  have c: "count_tasks (\<lambda>p. p = InRun)
             [(mockScanner ''s1'', InRun), (mockScanner ''s2'', AtSelect)] = 1"
    by (simp add: count_tasks_def)
  have n: "RunAll_exec twoRunner exampleTarget oneAtATime
             [MainStep, MainStep, Acquire 0, Acquire 1]
             (RunAll_init Background [''s1'', ''s2'']) = None"
    by (simp add: RunAll_step_def main_step_def task_step_def task_move_def RunAll_init_def
      twoRunner_Get limit_def oneAtATime_def DefaultOptions_def)
  from b l c n two_started show ?thesis by simp
qed































lemma twoRunner_missing:
  "Registry_Get (registry twoRunner) ''missing'' =
     Inl (Errorf (''scanner '' @ quote ''missing'' @ '' not found''))"
  by (simp add: twoRunner_def NewRunner_def registry_of_def Register_def NewRegistry_def
      Registry_Get_def mockScanner_def)

lemma RunAll_result_Some:
  "RunAll_result r target opts sched c names = Some rs \<longleftrightarrow>
     (\<exists>s. RunAll_exec r target opts sched (RunAll_init c names) = Some s \<and>
          main s = Returned rs)"
proof -
  have "returned m = Some rs \<longleftrightarrow> m = Returned rs" for m
    by (cases m) auto
  then show ?thesis
    by (auto simp: RunAll_result_def split: option.splits)
qed





text \<open>
  The append of a synthesized not-found entry is not under the mutex. When an unregistered
  name follows a registered one, a goroutine's append can fall between the caller's read
  of \<open>results\<close> and its store, and is then lost: here \<open>s1\<close> has run and appended its
  result, yet the returned slice holds only the entry for \<open>missing\<close>.
\<close>

lemma RunAll_unlocked_append_loses_entry:
  "map_option (map ScannerName)
     (RunAll_result twoRunner exampleTarget oneAtATime
        [MainStep, MainStep, Acquire 0, RunReturns 0, LockMu 0, UnlockMu 0, MainStep, MainStep]
        Background [''s1'', ''missing'']) = Some [''missing'']"
  by (simp add: RunAll_result_def twoRunner_Get twoRunner_missing RunAll_step_def
      main_step_def task_step_def task_move_def RunAll_init_def limit_def oneAtATime_def
      DefaultOptions_def mockScanner_def task_entry_def failure_def)

section \<open>RunAll: a run that returns\<close>

text \<open>
  The theorems above speak of the slice \<open>RunAll\<close> returns when it returns. It can return:
  when none of the scanners reached panics, running the names one by one ends in a return.
  (With a panic the process dies, and \<open>RunAll\<close> returns nothing.)
\<close>

lemma RunAll_exec_append:
  "RunAll_exec r target opts (as @ bs) s =
     (case RunAll_exec r target opts as s of
        None \<Rightarrow> None
      | Some s' \<Rightarrow> RunAll_exec r target opts bs s')"
  by (induction as arbitrary: s) (simp_all split: option.splits)

lemma limit_pos: "0 < limit opts"
  by (simp add: limit_def)

lemma one_by_one_returns_from:
  assumes "names_left s = names" "idle s"
    and "\<forall>name \<in> set names. \<forall>sc. Registry_Get (registry r) name = Inr sc \<longrightarrow>
           (\<forall>c v. Run sc c target opts \<noteq> Panics v)"
  shows "\<exists>s' rs. RunAll_exec r target opts
                    (one_by_one (registry r) (length (tasks s)) names) s = Some s' \<and>
                 main s' = Returned rs"
  using assms
proof (induction names arbitrary: s)
  case Nil
  then show ?case
    by (simp add: RunAll_step_def main_step_def idle_def)
next
  case (Cons name rest)
  from Cons.prems(2) have i: "main s = Loop" "list_all (\<lambda>t. snd t = Finished) (tasks s)"
    "\<not> mu s" "sem s = 0"
    by (simp_all add: idle_def)
  let ?k = "length (tasks s)"
  show ?case
  proof (cases "Registry_Get (registry r) name")
    case (Inl e)
    let ?s2 = "s\<lparr>names_left := rest,
                  results := results s @ [failure name target (Error_of e)]\<rparr>"
    have st: "RunAll_exec r target opts [MainStep, MainStep] s = Some ?s2"
      using Inl i Cons.prems(1) by (simp add: RunAll_step_def main_step_def)
    have "idle ?s2" using i by (simp add: idle_def)
    from Cons.IH [OF _ this] Cons.prems(3)
    obtain s' rs where "RunAll_exec r target opts
        (one_by_one (registry r) (length (tasks ?s2)) rest) ?s2 = Some s'" "main s' = Returned rs"
      by auto
    moreover have "one_by_one (registry r) ?k (name # rest) =
        [MainStep, MainStep] @ one_by_one (registry r) ?k rest"
      using Inl by (simp add: known_def)
    moreover have "RunAll_exec r target opts ([MainStep, MainStep] @ sched) s =
        RunAll_exec r target opts sched ?s2" for sched
      unfolding RunAll_exec_append st by simp
    ultimately show ?thesis by simp
  next
    case (Inr sc)
    with Cons.prems(3) have "\<forall>v. Run sc (caller_ctx s) target opts \<noteq> Panics v" by simp
    then obtain result e where run: "Run sc (caller_ctx s) target opts = Returns result e"
      by (cases "Run sc (caller_ctx s) target opts") auto
    let ?s5 = "s\<lparr>names_left := rest,
                  tasks := tasks s @ [(sc, Finished)],
                  results := (case task_entry sc target result e of
                                None \<Rightarrow> results s
                              | Some x \<Rightarrow> results s @ [x]),
                  mu := False, sem := 0\<rparr>"
    have st: "RunAll_exec r target opts
                [MainStep, Acquire ?k, RunReturns ?k, LockMu ?k, UnlockMu ?k] s = Some ?s5"
      using Inr i Cons.prems(1) run limit_pos [of opts]
      by (cases "task_entry sc target result e")
         (simp_all add: RunAll_step_def main_step_def task_step_def task_move_def)
    have "idle ?s5" using i by (simp add: idle_def)
    from Cons.IH [OF _ this] Cons.prems(3)
    obtain s' rs where "RunAll_exec r target opts
        (one_by_one (registry r) (length (tasks ?s5)) rest) ?s5 = Some s'" "main s' = Returned rs"
      by auto
    moreover have "one_by_one (registry r) ?k (name # rest) =
        [MainStep, Acquire ?k, RunReturns ?k, LockMu ?k, UnlockMu ?k] @
        one_by_one (registry r) (Suc ?k) rest"
      using Inr by (simp add: known_def)
    moreover have "RunAll_exec r target opts
        ([MainStep, Acquire ?k, RunReturns ?k, LockMu ?k, UnlockMu ?k] @ sched) s =
        RunAll_exec r target opts sched ?s5" for sched
      unfolding RunAll_exec_append st by simp
    ultimately show ?thesis by simp
  qed
qed

lemma RunAll_can_return:
  assumes "\<forall>name \<in> set names. \<forall>sc. Registry_Get (registry r) name = Inr sc \<longrightarrow>
             (\<forall>c v. Run sc c target opts \<noteq> Panics v)"
  shows "\<exists>rs. RunAll_result r target opts (one_by_one (registry r) 0 names) c names = Some rs"
proof -
  have "idle (RunAll_init c names)" "names_left (RunAll_init c names) = names"
    "length (tasks (RunAll_init c names)) = 0"
    by (simp_all add: idle_def RunAll_init_def)
  with one_by_one_returns_from [OF _ _ assms, of "RunAll_init c names"]
  show ?thesis by (auto simp: RunAll_result_Some)
qed

section \<open>Create: when two ids are the same\<close>

lemma digit_inj: "a < 10 \<Longrightarrow> b < 10 \<Longrightarrow> digit a = digit b \<Longrightarrow> a = b"
proof -
  have d: "distinct ''0123456789''" by simp
  assume "a < 10" "b < 10" "digit a = digit b"
  with nth_eq_iff_index_eq [OF d, of a b] show ?thesis by (simp add: digit_def)
qed

lemma digit_in_table: "a < 10 \<Longrightarrow> digit a \<in> set ''0123456789''"
  unfolding digit_def by (rule nth_mem) simp

lemma digits_nonempty: "digits n \<noteq> []"
  by (subst digits.simps) simp

lemma digits_chars: "set (digits n) \<subseteq> set ''0123456789''"
proof (induction n rule: digits.induct)
  case (1 n)
  show ?case
  proof (cases "n < 10")
    case True
    with digit_in_table [of n] show ?thesis by (subst digits.simps) simp
  next
    case False
    have "n mod 10 < 10" by simp
    from digit_in_table [OF this] 1 [OF False] False show ?thesis
      by (subst digits.simps) simp
  qed
qed

lemma digits_inj: "digits n = digits m \<Longrightarrow> n = m"
proof (induction n arbitrary: m rule: digits.induct)
  case (1 n)
  show ?case
  proof (cases "n < 10")
    case n: True
    show ?thesis
    proof (cases "m < 10")
      case True
      with n "1.prems" have "digit n = digit m"
        by (simp add: digits.simps [of n] digits.simps [of m])
      with n True show ?thesis by (rule digit_inj)
    next
      case False
      with n "1.prems" digits_nonempty [of "m div 10"] show ?thesis
        by (simp add: digits.simps [of n] digits.simps [of m])
    qed
  next
    case n: False
    show ?thesis
    proof (cases "m < 10")
      case True
      with n "1.prems" digits_nonempty [of "n div 10"] show ?thesis
        by (simp add: digits.simps [of n] digits.simps [of m])
    next
      case False
      with n "1.prems" have e: "digits (n div 10) = digits (m div 10)"
        "digit (n mod 10) = digit (m mod 10)"
        by (simp_all add: digits.simps [of n] digits.simps [of m])
      from "1.IH" [OF n e(1)] have q: "n div 10 = m div 10" .
      have "n mod 10 < 10" "m mod 10 < 10" by simp_all
      from digit_inj [OF this e(2)] have "n mod 10 = m mod 10" .
      with q show ?thesis by (metis div_mult_mod_eq)
    qed
  qed
qed

lemma sprint_d_inj: "sprint_d a = sprint_d b \<Longrightarrow> a = b"
proof -
  have no_minus: "CHR ''-'' # ds \<noteq> digits n" for ds n
  proof
    assume "CHR ''-'' # ds = digits n"
    then have "CHR ''-'' \<in> set (digits n)" by (metis list.set_intros(1))
    with digits_chars [of n] show False by auto
  qed
  assume e: "sprint_d a = sprint_d b"
  show ?thesis
  proof (cases "a < 0"; cases "b < 0")
    assume "a < 0" "b < 0"
    with e have "nat (- a) = nat (- b)" by (auto simp: sprint_d_def dest: digits_inj)
    with \<open>a < 0\<close> \<open>b < 0\<close> show ?thesis by simp
  next
    assume "a < 0" "\<not> b < 0"
    with e no_minus show ?thesis by (simp add: sprint_d_def)
  next
    assume "\<not> a < 0" "b < 0"
    with e no_minus [of "digits (nat (- b))" "nat a"] show ?thesis by (simp add: sprint_d_def)
  next
    assume "\<not> a < 0" "\<not> b < 0"
    with e have "nat a = nat b" by (auto simp: sprint_d_def dest: digits_inj)
    with \<open>\<not> a < 0\<close> \<open>\<not> b < 0\<close> show ?thesis by simp
  qed
qed

text \<open>
  Two jobs made by \<open>Create\<close> have the same id exactly when the two calls read the same
  clock value; and when they do, the later job takes the earlier one's place in the map.
\<close>

lemma Create_ids:
  assumes "Create t1 c1 target1 names1 opts1 m = (job1, m1)"
    and "Create t2 c2 target2 names2 opts2 m1 = (job2, m2)"
  shows "ID job1 = ID job2 \<longleftrightarrow> t1 = t2"
    and "t1 = t2 \<Longrightarrow> jobs m2 (ID job1) = Some job2"
    and "t1 \<noteq> t2 \<Longrightarrow> jobs m2 (ID job1) = Some job1 \<and> jobs m2 (ID job2) = Some job2"
  using assms by (auto simp: Create_def Let_def defaultNewUUID_def dest: sprint_d_inj)

end
